theory Spec2Isabelle
  imports Main "HOL-Library.Sublist" "HOL-Library.Word"
begin

section \<open>The configuration structure of \<open>backend/config/config.go\<close>\<close>

text \<open>
  The Go structs become records. Go has one namespace of field names per struct; a record
  field is a global constant, so the three fields called \<open>Password\<close> or \<open>Type\<close> in the
  source carry the name of their struct as a prefix. Go's \<open>int\<close> is modelled as \<open>int\<close>:
  the program never computes with \<open>Level\<close> or \<open>Port\<close>, it only stores them.
\<close>

record LogConfig =
  Level :: int

record HTTPConfig =
  Port :: int

record PGConfig =
  DSN :: string

record NATSConfig =
  Server :: string
  User :: string
  NATS_Password :: string

record MQConfig =
  MQ_Type :: string
  NATS :: NATSConfig

record CTRAGConfig =
  BaseURL :: string
  APIKey :: string

record RAGConfig =
  Provider :: string
  CTRAG :: CTRAGConfig

record RedisConfig =
  Addr :: string
  Redis_Password :: string

record JWTConfig =
  Secret :: string

record AuthConfig =
  Auth_Type :: string
  JWT :: JWTConfig

record S3Config =
  Endpoint :: string
  AccessKey :: string
  SecretKey :: string

record Config =
  Log :: LogConfig
  HTTP :: HTTPConfig
  AdminPassword :: string
  PG :: PGConfig
  MQ :: MQConfig
  RAG :: RAGConfig
  Redis :: RedisConfig
  Auth :: AuthConfig
  S3 :: S3Config
  CaddyAPI :: string
  SubnetPrefix :: string

section \<open>The process environment\<close>

text \<open>
  The environment is a finite map from names to values. \<open>os.Getenv\<close> returns the empty
  string for a variable that is not set, so the program cannot tell an unset variable from
  an empty one.
\<close>

type_synonym environ = "string \<rightharpoonup> string"

definition Getenv :: "environ \<Rightarrow> string \<Rightarrow> string" where
  "Getenv env k = (case env k of None \<Rightarrow> [] | Some v \<Rightarrow> v)"

section \<open>Address helpers\<close>

definition getMinioEndpoint :: "environ \<Rightarrow> string" where
  "getMinioEndpoint env =
     (let minioHost = Getenv env ''MINIO_HOST'' in
      if minioHost \<noteq> [] then minioHost @ '':9000''
      else ''panda-wiki-minio:9000'')"

definition getPostgresHost :: "environ \<Rightarrow> string" where
  "getPostgresHost env =
     (let pgHost = Getenv env ''POSTGRES_HOST'' in
      if pgHost \<noteq> [] then pgHost
      else ''panda-wiki-postgres'')"

definition getRedisAddr :: "environ \<Rightarrow> string" where
  "getRedisAddr env =
     (let redisHost = Getenv env ''REDIS_HOST'' in
      if redisHost \<noteq> [] then redisHost @ '':6379''
      else ''panda-wiki-redis:6379'')"

definition getNatsServer :: "environ \<Rightarrow> string" where
  "getNatsServer env =
     (let natsHost = Getenv env ''NATS_HOST'' in
      if natsHost \<noteq> [] then ''nats://'' @ natsHost @ '':4222''
      else
        let SUBNET_PREFIX = Getenv env ''SUBNET_PREFIX'';
            SUBNET_PREFIX = (if SUBNET_PREFIX = [] then ''169.254.15'' else SUBNET_PREFIX)
        in ''nats://'' @ SUBNET_PREFIX @ ''.13:4222'')"

definition getRagBaseURL :: "environ \<Rightarrow> string" where
  "getRagBaseURL env =
     (let ragHost = Getenv env ''RAG_HOST'' in
      if ragHost \<noteq> [] then ''http://'' @ ragHost @ '':8080/api/v1''
      else
        let SUBNET_PREFIX = Getenv env ''SUBNET_PREFIX'';
            SUBNET_PREFIX = (if SUBNET_PREFIX = [] then ''169.254.15'' else SUBNET_PREFIX)
        in ''http://'' @ SUBNET_PREFIX @ ''.18:8080/api/v1'')"

text \<open>
  The connection string that \<open>NewConfig\<close> and \<open>overrideWithEnv\<close> both build with
  \<open>fmt.Sprintf\<close>: the same format string, with the host and the password as arguments
  (\<open>NewConfig\<close> has the password \<open>panda-wiki-secret\<close> written into its format string).
\<close>

definition pgDSN :: "string \<Rightarrow> string \<Rightarrow> string" where
  "pgDSN host password =
     ''host='' @ host @ '' user=panda-wiki password='' @ password @
     '' dbname=panda-wiki port=5432 sslmode=disable TimeZone=Asia/Shanghai''"

section \<open>The environment override pass\<close>

text \<open>
  \<open>overrideWithEnv\<close> is twelve statements of one shape,
  \<^verbatim>\<open>if env := os.Getenv(K); env != "" { field = f(env) }\<close>,
  run in the order of the source. \<open>ifenv\<close> is that statement; the pass is the twelve in
  sequence on the structure the caller passed.
\<close>

definition ifenv :: "environ \<Rightarrow> string \<Rightarrow> (string \<Rightarrow> Config \<Rightarrow> Config) \<Rightarrow> Config \<Rightarrow> Config" where
  "ifenv env k assign c = (let v = Getenv env k in if v \<noteq> [] then assign v c else c)"

definition overrideWithEnv :: "environ \<Rightarrow> Config \<Rightarrow> Config" where
  "overrideWithEnv env c0 =
     (let c = ifenv env ''POSTGRES_PASSWORD''
                (\<lambda>v c. c\<lparr>PG := (PG c)\<lparr>DSN := pgDSN (getPostgresHost env) v\<rparr>\<rparr>) c0;
          c = ifenv env ''NATS_PASSWORD''
                (\<lambda>v c. c\<lparr>MQ := (MQ c)\<lparr>NATS := (NATS (MQ c))\<lparr>NATS_Password := v\<rparr>\<rparr>\<rparr>) c;
          c = ifenv env ''REDIS_PASSWORD''
                (\<lambda>v c. c\<lparr>Redis := (Redis c)\<lparr>Redis_Password := v\<rparr>\<rparr>) c;
          c = ifenv env ''JWT_SECRET''
                (\<lambda>v c. c\<lparr>Auth := (Auth c)\<lparr>JWT := (JWT (Auth c))\<lparr>Secret := v\<rparr>\<rparr>\<rparr>) c;
          c = ifenv env ''S3_SECRET_KEY''
                (\<lambda>v c. c\<lparr>S3 := (S3 c)\<lparr>SecretKey := v\<rparr>\<rparr>) c;
          c = ifenv env ''ADMIN_PASSWORD''
                (\<lambda>v c. c\<lparr>AdminPassword := v\<rparr>) c;
          c = ifenv env ''SUBNET_PREFIX''
                (\<lambda>v c. c\<lparr>SubnetPrefix := v\<rparr>) c;
          c = ifenv env ''PG_DSN''
                (\<lambda>v c. c\<lparr>PG := (PG c)\<lparr>DSN := v\<rparr>\<rparr>) c;
          c = ifenv env ''MQ_NATS_SERVER''
                (\<lambda>v c. c\<lparr>MQ := (MQ c)\<lparr>NATS := (NATS (MQ c))\<lparr>Server := v\<rparr>\<rparr>\<rparr>) c;
          c = ifenv env ''RAG_CT_RAG_BASE_URL''
                (\<lambda>v c. c\<lparr>RAG := (RAG c)\<lparr>CTRAG := (CTRAG (RAG c))\<lparr>BaseURL := v\<rparr>\<rparr>\<rparr>) c;
          c = ifenv env ''REDIS_ADDR''
                (\<lambda>v c. c\<lparr>Redis := (Redis c)\<lparr>Addr := v\<rparr>\<rparr>) c;
          c = ifenv env ''S3_ENDPOINT''
                (\<lambda>v c. c\<lparr>S3 := (S3 c)\<lparr>Endpoint := v\<rparr>\<rparr>) c
      in c)"

section \<open>The configuration library\<close>

text \<open>
  \<open>NewConfig\<close> and the six getters call the library \<open>viper\<close>, which is not part of this
  repository. What the program relies on is modelled, the rest is a parameter:
  \<^item> the library keeps one process-wide store of the settings it has read. The store is
    the document of the file, flattened as the library's \<open>AllKeys\<close> does it: one entry for
    each value of the document that is not a mapping (a scalar or a sequence), under the
    dotted path of the keys that lead to it, in lower case (\<open>http.port\<close>); an empty
    mapping and a null value leave no entry. The type \<open>'v\<close> of the raw values is left
    open;
  \<^item> what \<open>ReadInConfig\<close> finds on its search path (\<open>.\<close>, then \<open>./config\<close>, a file
    \<open>config\<close> of type \<open>yml\<close>) is an input of the model: no file, a file that cannot be
    read or parsed, or the settings of a file that was read;
  \<^item> how a raw value is decoded into a field of the structure, how a getter coerces one,
    and how a getter puts the key it is given into lower case, are parameters
    (\<open>decoder\<close>, \<open>caster\<close>): a decoder may refuse a value, a caster may not.
\<close>

datatype error =
    ConfigFileNotFoundError
  | ConfigReadError string
  | DecodeError "string list"

datatype 'v config_source =
    NoConfigFile
  | BrokenConfigFile string
  | ConfigFile "(string \<times> 'v) list"

type_synonym 'v viper = "(string \<times> 'v) list"

record 'v decoder =
  decode_string :: "'v \<Rightarrow> string option"
  decode_int :: "'v \<Rightarrow> int option"

record ('v, 'f) caster =
  ToString :: "'v \<Rightarrow> string"
  ToInt :: "'v \<Rightarrow> int"
  ToUint64 :: "'v \<Rightarrow> 64 word"
  ToBool :: "'v \<Rightarrow> bool"
  ToStringSlice :: "'v \<Rightarrow> string list"
  ToFloat64 :: "'v \<Rightarrow> 'f"
  ToLower :: "string \<Rightarrow> string"

text \<open>
  \<open>viper.ReadInConfig\<close>: the error it returns, and the store afterwards. Only a file that
  was read changes the store.
\<close>

definition viper_ReadInConfig :: "'v config_source \<Rightarrow> 'v viper \<Rightarrow> error option \<times> 'v viper" where
  "viper_ReadInConfig src vp =
     (case src of
        NoConfigFile \<Rightarrow> (Some ConfigFileNotFoundError, vp)
      | BrokenConfigFile msg \<Rightarrow> (Some (ConfigReadError msg), vp)
      | ConfigFile settings \<Rightarrow> (None, settings))"

text \<open>
  \<open>viper.Unmarshal\<close> into a \<open>Config\<close> rebuilds the document from the entries of the
  store and decodes it into the structure. A field whose key (its \<open>mapstructure\<close> tags,
  joined by dots) has no entry keeps the value it has; a field whose key has one takes
  the decoded value. The call fails when the document does not fit the structure:
  \<^item> the decoder refuses the value of a field;
  \<^item> there is an entry at the key of a nested structure (\<open>pg: 5\<close>): a value that is not a
    mapping stands where the structure has a section;
  \<^item> there is an entry below the key of a field (\<open>http.port.x\<close>): a mapping stands where
    the structure has a string or a number.
  Entries at other keys are ignored.
\<close>

definition int_keys :: "string list" where
  "int_keys = [''log.level'', ''http.port'']"

definition string_keys :: "string list" where
  "string_keys =
     [''admin_password'', ''pg.dsn'', ''mq.type'', ''mq.nats.server'', ''mq.nats.user'',
      ''mq.nats.password'', ''rag.provider'', ''rag.ct_rag.base_url'', ''rag.ct_rag.api_key'',
      ''redis.addr'', ''redis.password'', ''auth.type'', ''auth.jwt.secret'', ''s3.endpoint'',
      ''s3.access_key'', ''s3.secret_key'', ''caddy_api'', ''subnet_prefix'']"

definition section_keys :: "string list" where
  "section_keys =
     [''log'', ''http'', ''pg'', ''mq'', ''mq.nats'', ''rag'', ''rag.ct_rag'', ''redis'',
      ''auth'', ''auth.jwt'', ''s3'']"

definition refused :: "('v \<Rightarrow> 'a option) \<Rightarrow> 'v viper \<Rightarrow> string \<Rightarrow> bool" where
  "refused dec vp k = (case map_of vp k of None \<Rightarrow> False | Some v \<Rightarrow> dec v = None)"

definition below_field :: "string \<Rightarrow> bool" where
  "below_field k = list_ex (\<lambda>field. prefix (field @ ''.'') k) (int_keys @ string_keys)"

definition undecodable :: "'v decoder \<Rightarrow> 'v viper \<Rightarrow> string list" where
  "undecodable D vp =
     filter (refused (decode_int D) vp) int_keys @
     filter (refused (decode_string D) vp) string_keys @
     filter (\<lambda>k. map_of vp k \<noteq> None) section_keys @
     filter below_field (map fst vp)"

definition merged :: "('v \<Rightarrow> 'a option) \<Rightarrow> 'v viper \<Rightarrow> string \<Rightarrow> 'a \<Rightarrow> 'a" where
  "merged dec vp k cur =
     (case map_of vp k of
        None \<Rightarrow> cur
      | Some v \<Rightarrow> (case dec v of None \<Rightarrow> cur | Some x \<Rightarrow> x))"

definition viper_Unmarshal :: "'v decoder \<Rightarrow> 'v viper \<Rightarrow> Config \<Rightarrow> error + Config" where
  "viper_Unmarshal D vp c =
     (if undecodable D vp \<noteq> [] then Inl (DecodeError (undecodable D vp))
      else
        let str = merged (decode_string D) vp;
            num = merged (decode_int D) vp
        in Inr
          \<lparr>Log = \<lparr>Level = num ''log.level'' (Level (Log c))\<rparr>,
           HTTP = \<lparr>Port = num ''http.port'' (Port (HTTP c))\<rparr>,
           AdminPassword = str ''admin_password'' (AdminPassword c),
           PG = \<lparr>DSN = str ''pg.dsn'' (DSN (PG c))\<rparr>,
           MQ = \<lparr>MQ_Type = str ''mq.type'' (MQ_Type (MQ c)),
                 NATS = \<lparr>Server = str ''mq.nats.server'' (Server (NATS (MQ c))),
                          User = str ''mq.nats.user'' (User (NATS (MQ c))),
                          NATS_Password = str ''mq.nats.password'' (NATS_Password (NATS (MQ c)))\<rparr>\<rparr>,
           RAG = \<lparr>Provider = str ''rag.provider'' (Provider (RAG c)),
                  CTRAG = \<lparr>BaseURL = str ''rag.ct_rag.base_url'' (BaseURL (CTRAG (RAG c))),
                            APIKey = str ''rag.ct_rag.api_key'' (APIKey (CTRAG (RAG c)))\<rparr>\<rparr>,
           Redis = \<lparr>Addr = str ''redis.addr'' (Addr (Redis c)),
                    Redis_Password = str ''redis.password'' (Redis_Password (Redis c))\<rparr>,
           Auth = \<lparr>Auth_Type = str ''auth.type'' (Auth_Type (Auth c)),
                   JWT = \<lparr>Secret = str ''auth.jwt.secret'' (Secret (JWT (Auth c)))\<rparr>\<rparr>,
           S3 = \<lparr>Endpoint = str ''s3.endpoint'' (Endpoint (S3 c)),
                 AccessKey = str ''s3.access_key'' (AccessKey (S3 c)),
                 SecretKey = str ''s3.secret_key'' (SecretKey (S3 c))\<rparr>,
           CaddyAPI = str ''caddy_api'' (CaddyAPI c),
           SubnetPrefix = str ''subnet_prefix'' (SubnetPrefix c)\<rparr>)"

text \<open>
  The typed getters of the library put the key into lower case and look it up: the raw
  value of the key, coerced, and the zero value of the type when the store has no such
  entry (also at the key of a section, whose mapping no coercion accepts). None of them
  returns an error.
\<close>

definition viper_GetString :: "('v, 'f) caster \<Rightarrow> 'v viper \<Rightarrow> string \<Rightarrow> string" where
  "viper_GetString C vp key = (case map_of vp (ToLower C key) of None \<Rightarrow> [] | Some v \<Rightarrow> ToString C v)"

definition viper_GetInt :: "('v, 'f) caster \<Rightarrow> 'v viper \<Rightarrow> string \<Rightarrow> int" where
  "viper_GetInt C vp key = (case map_of vp (ToLower C key) of None \<Rightarrow> 0 | Some v \<Rightarrow> ToInt C v)"

definition viper_GetUint64 :: "('v, 'f) caster \<Rightarrow> 'v viper \<Rightarrow> string \<Rightarrow> 64 word" where
  "viper_GetUint64 C vp key = (case map_of vp (ToLower C key) of None \<Rightarrow> 0 | Some v \<Rightarrow> ToUint64 C v)"

definition viper_GetBool :: "('v, 'f) caster \<Rightarrow> 'v viper \<Rightarrow> string \<Rightarrow> bool" where
  "viper_GetBool C vp key = (case map_of vp (ToLower C key) of None \<Rightarrow> False | Some v \<Rightarrow> ToBool C v)"

definition viper_GetStringSlice :: "('v, 'f) caster \<Rightarrow> 'v viper \<Rightarrow> string \<Rightarrow> string list" where
  "viper_GetStringSlice C vp key = (case map_of vp (ToLower C key) of None \<Rightarrow> [] | Some v \<Rightarrow> ToStringSlice C v)"

definition viper_GetFloat64 :: "('v, 'f::zero) caster \<Rightarrow> 'v viper \<Rightarrow> string \<Rightarrow> 'f" where
  "viper_GetFloat64 C vp key = (case map_of vp (ToLower C key) of None \<Rightarrow> 0 | Some v \<Rightarrow> ToFloat64 C v)"

section \<open>Resolution: \<open>NewConfig\<close>\<close>

text \<open>
  The structure literal that \<open>NewConfig\<close> builds first. The local \<open>SUBNET_PREFIX\<close> that
  \<open>NewConfig\<close> computes before it is not used by the literal: the field \<open>SubnetPrefix\<close>
  is the constant \<open>169.254.15\<close>.
\<close>

definition defaultConfig :: "environ \<Rightarrow> Config" where
  "defaultConfig env =
     \<lparr>Log = \<lparr>Level = 0\<rparr>,
      HTTP = \<lparr>Port = 8000\<rparr>,
      AdminPassword = [],
      PG = \<lparr>DSN = pgDSN (getPostgresHost env) ''panda-wiki-secret''\<rparr>,
      MQ = \<lparr>MQ_Type = ''nats'',
            NATS = \<lparr>Server = getNatsServer env, User = ''panda-wiki'', NATS_Password = []\<rparr>\<rparr>,
      RAG = \<lparr>Provider = ''ct'',
             CTRAG = \<lparr>BaseURL = getRagBaseURL env, APIKey = ''sk-1234567890''\<rparr>\<rparr>,
      Redis = \<lparr>Addr = getRedisAddr env, Redis_Password = []\<rparr>,
      Auth = \<lparr>Auth_Type = ''jwt'', JWT = \<lparr>Secret = []\<rparr>\<rparr>,
      S3 = \<lparr>Endpoint = getMinioEndpoint env, AccessKey = ''s3panda-wiki'', SecretKey = []\<rparr>,
      CaddyAPI = ''/app/run/caddy-admin.sock'',
      SubnetPrefix = ''169.254.15''\<rparr>"

text \<open>
  \<open>NewConfig\<close> returns the structure or the error, and leaves the library's store as
  \<open>ReadInConfig\<close> set it; the store of a process that starts is empty. The type assertion
  \<^verbatim>\<open>err.(viper.ConfigFileNotFoundError)\<close> is \<open>isConfigFileNotFound\<close>.
\<close>

definition isConfigFileNotFound :: "error \<Rightarrow> bool" where
  "isConfigFileNotFound e = (case e of ConfigFileNotFoundError \<Rightarrow> True | _ \<Rightarrow> False)"

definition NewConfig :: "'v decoder \<Rightarrow> environ \<Rightarrow> 'v config_source \<Rightarrow> (error + Config) \<times> 'v viper" where
  "NewConfig D env src =
     (let SUBNET_PREFIX = Getenv env ''SUBNET_PREFIX'';
          SUBNET_PREFIX = (if SUBNET_PREFIX = [] then ''169.254.15'' else SUBNET_PREFIX);
          c = defaultConfig env;
          (err, vp) = viper_ReadInConfig src []
      in case (case err of
                 None \<Rightarrow> None
               | Some e \<Rightarrow> if \<not> isConfigFileNotFound e then Some e else None) of
           Some e \<Rightarrow> (Inl e, vp)
         | None \<Rightarrow>
             (case viper_Unmarshal D vp c of
                Inl e \<Rightarrow> (Inl e, vp)
              | Inr c \<Rightarrow> (Inr (overrideWithEnv env c), vp)))"

section \<open>The generic key accessor\<close>

text \<open>
  The six getters are methods of \<open>Config\<close> with an unnamed receiver: each hands its key to
  the library and does not look at the structure.
\<close>

definition GetString :: "('v, 'f) caster \<Rightarrow> 'v viper \<Rightarrow> Config \<Rightarrow> string \<Rightarrow> string" where
  "GetString C vp c key = viper_GetString C vp key"

definition GetInt :: "('v, 'f) caster \<Rightarrow> 'v viper \<Rightarrow> Config \<Rightarrow> string \<Rightarrow> int" where
  "GetInt C vp c key = viper_GetInt C vp key"

definition GetUint64 :: "('v, 'f) caster \<Rightarrow> 'v viper \<Rightarrow> Config \<Rightarrow> string \<Rightarrow> 64 word" where
  "GetUint64 C vp c key = viper_GetUint64 C vp key"

definition GetBool :: "('v, 'f) caster \<Rightarrow> 'v viper \<Rightarrow> Config \<Rightarrow> string \<Rightarrow> bool" where
  "GetBool C vp c key = viper_GetBool C vp key"

definition GetStringSlice :: "('v, 'f) caster \<Rightarrow> 'v viper \<Rightarrow> Config \<Rightarrow> string \<Rightarrow> string list" where
  "GetStringSlice C vp c key = viper_GetStringSlice C vp key"

definition GetFloat64 :: "('v, 'f::zero) caster \<Rightarrow> 'v viper \<Rightarrow> Config \<Rightarrow> string \<Rightarrow> 'f" where
  "GetFloat64 C vp c key = viper_GetFloat64 C vp key"

section \<open>Auxiliary notions for the statements\<close>

text \<open>
  The value a string field has after one statement of the override pass: \<open>f\<close> of the
  variable when the variable is set and not empty, the old value otherwise.
\<close>

definition envOr :: "environ \<Rightarrow> string \<Rightarrow> (string \<Rightarrow> string) \<Rightarrow> string \<Rightarrow> string" where
  "envOr env k f old = (if Getenv env k \<noteq> [] then f (Getenv env k) else old)"

text \<open>
  The entries that a configuration source contributes to the store, and the value it
  gives a key.
\<close>

definition file_entries :: "'v config_source \<Rightarrow> 'v viper" where
  "file_entries src = (case src of ConfigFile settings \<Rightarrow> settings | _ \<Rightarrow> [])"

definition file_settings :: "'v config_source \<Rightarrow> string \<rightharpoonup> 'v" where
  "file_settings src = map_of (file_entries src)"

text \<open>The network prefix in effect: \<open>SUBNET_PREFIX\<close>, or the fallback of the source.\<close>

definition effective_prefix :: "environ \<Rightarrow> string" where
  "effective_prefix env =
     (if Getenv env ''SUBNET_PREFIX'' = [] then ''169.254.15'' else Getenv env ''SUBNET_PREFIX'')"

section \<open>A sample instance of the library\<close>

text \<open>
  Scalar values and a strict decoder and caster for them, to run the definitions on
  concrete files; the caster lowers the letters \<open>A\<close> to \<open>Z\<close>. The general theorems hold
  for every decoder and caster.
\<close>

datatype scalar = Str string | Num int | Flag bool

definition ascii_lower :: "char \<Rightarrow> char" where
  "ascii_lower ch =
     (case map_of (zip ''ABCDEFGHIJKLMNOPQRSTUVWXYZ'' ''abcdefghijklmnopqrstuvwxyz'') ch of
        None \<Rightarrow> ch
      | Some l \<Rightarrow> l)"

definition scalar_decoder :: "scalar decoder" where
  "scalar_decoder =
     \<lparr>decode_string = (\<lambda>v. case v of Str s \<Rightarrow> Some s | _ \<Rightarrow> None),
      decode_int = (\<lambda>v. case v of Num n \<Rightarrow> Some n | _ \<Rightarrow> None)\<rparr>"

definition scalar_caster :: "(scalar, int) caster" where
  "scalar_caster =
     \<lparr>ToString = (\<lambda>v. case v of Str s \<Rightarrow> s | _ \<Rightarrow> []),
      ToInt = (\<lambda>v. case v of Num n \<Rightarrow> n | _ \<Rightarrow> 0),
      ToUint64 = (\<lambda>v. case v of Num n \<Rightarrow> word_of_int n | _ \<Rightarrow> 0),
      ToBool = (\<lambda>v. case v of Flag b \<Rightarrow> b | _ \<Rightarrow> False),
      ToStringSlice = (\<lambda>v. case v of Str s \<Rightarrow> [s] | _ \<Rightarrow> []),
      ToFloat64 = (\<lambda>v. case v of Num n \<Rightarrow> n | _ \<Rightarrow> 0),
      ToLower = map ascii_lower\<rparr>"

section \<open>The override pass as a chain of field updates\<close>

text \<open>
  Each statement of the pass updates one field by a function of its old value, so the
  pass is a composition of twelve updates and the record simplifier can read any field
  of the result without a case split.
\<close>

lemma ifenv_updates:
  "ifenv env k (\<lambda>v c. c\<lparr>PG := (PG c)\<lparr>DSN := f v\<rparr>\<rparr>) c = PG_update (DSN_update (envOr env k f)) c"
  "ifenv env k (\<lambda>v c. c\<lparr>MQ := (MQ c)\<lparr>NATS := (NATS (MQ c))\<lparr>NATS_Password := v\<rparr>\<rparr>\<rparr>) c =
     MQ_update (NATS_update (NATS_Password_update (envOr env k id))) c"
  "ifenv env k (\<lambda>v c. c\<lparr>MQ := (MQ c)\<lparr>NATS := (NATS (MQ c))\<lparr>Server := v\<rparr>\<rparr>\<rparr>) c =
     MQ_update (NATS_update (Server_update (envOr env k id))) c"
  "ifenv env k (\<lambda>v c. c\<lparr>Redis := (Redis c)\<lparr>Redis_Password := v\<rparr>\<rparr>) c =
     Redis_update (Redis_Password_update (envOr env k id)) c"
  "ifenv env k (\<lambda>v c. c\<lparr>Redis := (Redis c)\<lparr>Addr := v\<rparr>\<rparr>) c =
     Redis_update (Addr_update (envOr env k id)) c"
  "ifenv env k (\<lambda>v c. c\<lparr>Auth := (Auth c)\<lparr>JWT := (JWT (Auth c))\<lparr>Secret := v\<rparr>\<rparr>\<rparr>) c =
     Auth_update (JWT_update (Secret_update (envOr env k id))) c"
  "ifenv env k (\<lambda>v c. c\<lparr>S3 := (S3 c)\<lparr>SecretKey := v\<rparr>\<rparr>) c =
     S3_update (SecretKey_update (envOr env k id)) c"
  "ifenv env k (\<lambda>v c. c\<lparr>S3 := (S3 c)\<lparr>Endpoint := v\<rparr>\<rparr>) c =
     S3_update (Endpoint_update (envOr env k id)) c"
  "ifenv env k (\<lambda>v c. c\<lparr>RAG := (RAG c)\<lparr>CTRAG := (CTRAG (RAG c))\<lparr>BaseURL := v\<rparr>\<rparr>\<rparr>) c =
     RAG_update (CTRAG_update (BaseURL_update (envOr env k id))) c"
  "ifenv env k (\<lambda>v c. c\<lparr>AdminPassword := v\<rparr>) c = AdminPassword_update (envOr env k id) c"
  "ifenv env k (\<lambda>v c. c\<lparr>SubnetPrefix := v\<rparr>) c = SubnetPrefix_update (envOr env k id) c"
  by (simp_all add: ifenv_def envOr_def Let_def)

lemma override_updates:
  "overrideWithEnv env c =
     S3_update (Endpoint_update (envOr env ''S3_ENDPOINT'' id))
      (Redis_update (Addr_update (envOr env ''REDIS_ADDR'' id))
       (RAG_update (CTRAG_update (BaseURL_update (envOr env ''RAG_CT_RAG_BASE_URL'' id)))
        (MQ_update (NATS_update (Server_update (envOr env ''MQ_NATS_SERVER'' id)))
         (PG_update (DSN_update (envOr env ''PG_DSN'' (\<lambda>v. v)))
          (SubnetPrefix_update (envOr env ''SUBNET_PREFIX'' id)
           (AdminPassword_update (envOr env ''ADMIN_PASSWORD'' id)
            (S3_update (SecretKey_update (envOr env ''S3_SECRET_KEY'' id))
             (Auth_update (JWT_update (Secret_update (envOr env ''JWT_SECRET'' id)))
              (Redis_update (Redis_Password_update (envOr env ''REDIS_PASSWORD'' id))
               (MQ_update (NATS_update (NATS_Password_update (envOr env ''NATS_PASSWORD'' id)))
                (PG_update (DSN_update (envOr env ''POSTGRES_PASSWORD'' (pgDSN (getPostgresHost env))))
                  c)))))))))))"
  unfolding overrideWithEnv_def Let_def ifenv_updates ..

lemma envOr_twice: "envOr env k f (envOr env k f old) = envOr env k f old"
  by (simp add: envOr_def)

lemma envOr_twice_nested:
  "envOr env k g (envOr env k' f (envOr env k g (envOr env k' f old))) =
   envOr env k g (envOr env k' f old)"
  by (simp add: envOr_def)

lemma override_DSN:
  "DSN (PG (overrideWithEnv env c)) =
     (if Getenv env ''PG_DSN'' \<noteq> [] then Getenv env ''PG_DSN''
      else if Getenv env ''POSTGRES_PASSWORD'' \<noteq> []
           then pgDSN (getPostgresHost env) (Getenv env ''POSTGRES_PASSWORD'')
           else DSN (PG c))"
  by (simp add: override_updates envOr_def)

lemma override_Server:
  "Server (NATS (MQ (overrideWithEnv env c))) =
     (if Getenv env ''MQ_NATS_SERVER'' \<noteq> [] then Getenv env ''MQ_NATS_SERVER''
      else Server (NATS (MQ c)))"
  by (simp add: override_updates envOr_def)

lemma override_BaseURL:
  "BaseURL (CTRAG (RAG (overrideWithEnv env c))) =
     (if Getenv env ''RAG_CT_RAG_BASE_URL'' \<noteq> [] then Getenv env ''RAG_CT_RAG_BASE_URL''
      else BaseURL (CTRAG (RAG c)))"
  by (simp add: override_updates envOr_def)

lemma override_SubnetPrefix:
  "SubnetPrefix (overrideWithEnv env c) =
     (if Getenv env ''SUBNET_PREFIX'' \<noteq> [] then Getenv env ''SUBNET_PREFIX''
      else SubnetPrefix c)"
  by (simp add: override_updates envOr_def)

section \<open>Facts about decoding and resolution\<close>

lemma override_no_env: "(\<And>k. Getenv env k = []) \<Longrightarrow> overrideWithEnv env c = c"
  by (simp add: override_updates envOr_def)

lemma Getenv_empty: "Getenv Map.empty k = []"
  by (simp add: Getenv_def)

lemma Unmarshal_empty: "viper_Unmarshal D [] c = Inr c"
  by (simp add: viper_Unmarshal_def undecodable_def refused_def merged_def)

lemma Unmarshal_isl: "isl (viper_Unmarshal D st c) \<longleftrightarrow> undecodable D st \<noteq> []"
  by (simp add: viper_Unmarshal_def Let_def)

lemma Unmarshal_fields:
  assumes "viper_Unmarshal D st c = Inr c'"
  shows "DSN (PG c') = merged (decode_string D) st ''pg.dsn'' (DSN (PG c))"
    and "Server (NATS (MQ c')) = merged (decode_string D) st ''mq.nats.server'' (Server (NATS (MQ c)))"
    and "BaseURL (CTRAG (RAG c')) =
           merged (decode_string D) st ''rag.ct_rag.base_url'' (BaseURL (CTRAG (RAG c)))"
    and "SubnetPrefix c' = merged (decode_string D) st ''subnet_prefix'' (SubnetPrefix c)"
    and "undecodable D st = []"
    and "Port (HTTP c') = merged (decode_int D) st ''http.port'' (Port (HTTP c))"
  using assms by (auto simp add: viper_Unmarshal_def Let_def split: if_splits)

lemma refused_iff: "refused dec st k \<longleftrightarrow> (\<exists>v. map_of st k = Some v \<and> dec v = None)"
  by (simp add: refused_def split: option.splits)

lemma undecodable_iff:
  "undecodable D st \<noteq> [] \<longleftrightarrow>
     (\<exists>k\<in>set int_keys. \<exists>v. map_of st k = Some v \<and> decode_int D v = None) \<or>
     (\<exists>k\<in>set string_keys. \<exists>v. map_of st k = Some v \<and> decode_string D v = None) \<or>
     (\<exists>k\<in>set section_keys. map_of st k \<noteq> None) \<or>
     (\<exists>k\<in>fst ` set st. below_field k)"
proof -
  have "undecodable D st \<noteq> [] \<longleftrightarrow>
      (\<exists>k\<in>set int_keys. refused (decode_int D) st k) \<or>
      (\<exists>k\<in>set string_keys. refused (decode_string D) st k) \<or>
      (\<exists>k\<in>set section_keys. map_of st k \<noteq> None) \<or>
      (\<exists>k\<in>set (map fst st). below_field k)"
    unfolding undecodable_def append_is_Nil_conv filter_empty_conv by blast
  then show ?thesis
    by (simp only: refused_iff set_map)
qed

lemma undecodable_string:
  assumes "undecodable D st = []" and "k \<in> set string_keys" and "map_of st k = Some v"
  shows "\<exists>s. decode_string D v = Some s"
  using assms by (auto simp add: undecodable_def filter_empty_conv refused_def)

lemma NewConfig_result:
  "fst (NewConfig D env src) =
     (case src of
        NoConfigFile \<Rightarrow> Inr (overrideWithEnv env (defaultConfig env))
      | BrokenConfigFile msg \<Rightarrow> Inl (ConfigReadError msg)
      | ConfigFile st \<Rightarrow> map_sum id (overrideWithEnv env) (viper_Unmarshal D st (defaultConfig env)))"
  by (simp add: NewConfig_def viper_ReadInConfig_def isConfigFileNotFound_def Unmarshal_empty
      split: config_source.splits sum.splits)

lemma NewConfig_store: "snd (NewConfig D env src) = file_entries src"
  by (simp add: NewConfig_def viper_ReadInConfig_def isConfigFileNotFound_def Unmarshal_empty
      file_entries_def split: config_source.splits sum.splits)

lemma NewConfig_Inr:
  assumes "fst (NewConfig D env src) = Inr c"
  shows "\<exists>c1. viper_Unmarshal D (file_entries src) (defaultConfig env) = Inr c1 \<and>
              c = overrideWithEnv env c1"
  using assms
  by (cases src)
     (auto simp add: NewConfig_result file_entries_def Unmarshal_empty map_sum_def
           split: sum.splits)

lemma NewConfig_isl:
  "isl (fst (NewConfig D env src)) \<longleftrightarrow>
     (\<exists>msg. src = BrokenConfigFile msg) \<or> (\<exists>st. src = ConfigFile st \<and> undecodable D st \<noteq> [])"
  by (cases src) (simp_all add: NewConfig_result Unmarshal_isl isl_map_sum)

lemma NewConfig_collapse:
  "\<not> isl (fst (NewConfig D env src)) \<Longrightarrow>
   fst (NewConfig D env src) = Inr (projr (fst (NewConfig D env src)))"
  by simp

lemma NewConfig_ok:
  "undecodable D st = [] \<Longrightarrow> \<not> isl (fst (NewConfig D env (ConfigFile st)))"
  by (simp add: NewConfig_isl)

lemmas sample_eval =
  undecodable_def refused_def below_field_def int_keys_def string_keys_def
  section_keys_def scalar_decoder_def

section \<open>The override pass: idempotence and frame\<close>

text \<open>
  Claim C6. The environment override pass is idempotent: for every structure and every
  environment, running \<open>overrideWithEnv\<close> on its own result, in the same environment,
  gives that result again.
\<close>

theorem overrideWithEnv_idempotent:
  "overrideWithEnv env (overrideWithEnv env c) = overrideWithEnv env c"
  by (simp add: override_updates envOr_twice envOr_twice_nested)

theorem overrideWithEnv_idempotent_witness:
  "overrideWithEnv [''PG_DSN'' \<mapsto> ''host=db'', ''JWT_SECRET'' \<mapsto> ''s3cr3t'']
     (overrideWithEnv [''PG_DSN'' \<mapsto> ''host=db'', ''JWT_SECRET'' \<mapsto> ''s3cr3t'']
        (defaultConfig Map.empty)) =
   overrideWithEnv [''PG_DSN'' \<mapsto> ''host=db'', ''JWT_SECRET'' \<mapsto> ''s3cr3t'']
     (defaultConfig Map.empty)"
  by (rule overrideWithEnv_idempotent)

text \<open>
  Claim C9. The pass changes no field outside its list: the log level, the HTTP port, the
  queue type, the broker user, the provider and API key of the retrieval service, the
  authentication type, the access key of the object store and the Caddy socket are the
  same before and after, in every environment. (\<open>RedisConfig\<close> has the two fields
  \<open>Addr\<close> and \<open>Password\<close> only, and both are on the list.)
\<close>

theorem overrideWithEnv_frame:
  "Level (Log (overrideWithEnv env c)) = Level (Log c) \<and>
   Port (HTTP (overrideWithEnv env c)) = Port (HTTP c) \<and>
   MQ_Type (MQ (overrideWithEnv env c)) = MQ_Type (MQ c) \<and>
   User (NATS (MQ (overrideWithEnv env c))) = User (NATS (MQ c)) \<and>
   Provider (RAG (overrideWithEnv env c)) = Provider (RAG c) \<and>
   APIKey (CTRAG (RAG (overrideWithEnv env c))) = APIKey (CTRAG (RAG c)) \<and>
   Auth_Type (Auth (overrideWithEnv env c)) = Auth_Type (Auth c) \<and>
   AccessKey (S3 (overrideWithEnv env c)) = AccessKey (S3 c) \<and>
   CaddyAPI (overrideWithEnv env c) = CaddyAPI c"
  by (simp add: override_updates)

theorem overrideWithEnv_frame_witness:
  "Port (HTTP (overrideWithEnv [''ADMIN_PASSWORD'' \<mapsto> ''secret''] (defaultConfig Map.empty))) = 8000 \<and>
   CaddyAPI (overrideWithEnv [''ADMIN_PASSWORD'' \<mapsto> ''secret''] (defaultConfig Map.empty)) =
     ''/app/run/caddy-admin.sock''"
  using overrideWithEnv_frame [of "[''ADMIN_PASSWORD'' \<mapsto> ''secret'']" "defaultConfig Map.empty"]
  by (simp add: defaultConfig_def)

section \<open>When resolution fails\<close>

text \<open>
  Claim C3. \<open>NewConfig\<close> returns an error, and no structure, exactly when a
  configuration file is found and either cannot be read or parsed, or its contents
  cannot be merged onto the structure: the decoder refuses the value of a field, a value
  stands where the structure has a section, or a mapping stands where the structure has
  a field. The error of a file that cannot be read is the library's own. When no file is
  found, \<open>NewConfig\<close> succeeds: it returns the defaults after the override pass, which
  are the defaults themselves when no variable is set.
\<close>

theorem NewConfig_fails_iff:
  "(isl (fst (NewConfig D env src)) \<longleftrightarrow>
      (\<exists>msg. src = BrokenConfigFile msg) \<or>
      (\<exists>settings. src = ConfigFile settings \<and>
         ((\<exists>k\<in>set int_keys. \<exists>v. map_of settings k = Some v \<and> decode_int D v = None) \<or>
          (\<exists>k\<in>set string_keys. \<exists>v. map_of settings k = Some v \<and> decode_string D v = None) \<or>
          (\<exists>k\<in>set section_keys. map_of settings k \<noteq> None) \<or>
          (\<exists>k\<in>fst ` set settings. below_field k)))) \<and>
   fst (NewConfig D env (BrokenConfigFile msg)) = Inl (ConfigReadError msg) \<and>
   fst (NewConfig D env NoConfigFile) = Inr (overrideWithEnv env (defaultConfig env)) \<and>
   ((\<forall>k. Getenv env k = []) \<longrightarrow> fst (NewConfig D env NoConfigFile) = Inr (defaultConfig env))"
proof (intro conjI impI)
  show "isl (fst (NewConfig D env src)) \<longleftrightarrow>
      (\<exists>msg. src = BrokenConfigFile msg) \<or>
      (\<exists>settings. src = ConfigFile settings \<and>
         ((\<exists>k\<in>set int_keys. \<exists>v. map_of settings k = Some v \<and> decode_int D v = None) \<or>
          (\<exists>k\<in>set string_keys. \<exists>v. map_of settings k = Some v \<and> decode_string D v = None) \<or>
          (\<exists>k\<in>set section_keys. map_of settings k \<noteq> None) \<or>
          (\<exists>k\<in>fst ` set settings. below_field k)))"
    unfolding NewConfig_isl undecodable_iff ..
  show "fst (NewConfig D env (BrokenConfigFile msg)) = Inl (ConfigReadError msg)"
    by (simp add: NewConfig_result)
  show "fst (NewConfig D env NoConfigFile) = Inr (overrideWithEnv env (defaultConfig env))"
    by (simp add: NewConfig_result)
  show "fst (NewConfig D env NoConfigFile) = Inr (defaultConfig env)"
    if "\<forall>k. Getenv env k = []"
    using that by (simp add: NewConfig_result override_no_env)
qed

theorem NewConfig_fails_iff_witness:
  "isl (fst (NewConfig scalar_decoder Map.empty (ConfigFile [(''http.port'', Str ''eighty'')]))) \<and>
   isl (fst (NewConfig scalar_decoder Map.empty (ConfigFile [(''pg'', Num 5)]))) \<and>
   isl (fst (NewConfig scalar_decoder Map.empty (ConfigFile [(''http.port.x'', Num 1)]))) \<and>
   \<not> isl (fst (NewConfig scalar_decoder Map.empty (ConfigFile [(''http.port'', Num 80)]))) \<and>
   fst (NewConfig scalar_decoder Map.empty NoConfigFile) = Inr (defaultConfig Map.empty)"
proof -
  have a: "isl (fst (NewConfig scalar_decoder Map.empty (ConfigFile [(''http.port'', Str ''eighty'')])))"
    using NewConfig_fails_iff [of scalar_decoder Map.empty "ConfigFile [(''http.port'', Str ''eighty'')]"]
    by (simp add: int_keys_def scalar_decoder_def)
  have b: "isl (fst (NewConfig scalar_decoder Map.empty (ConfigFile [(''pg'', Num 5)])))"
    using NewConfig_fails_iff [of scalar_decoder Map.empty "ConfigFile [(''pg'', Num 5)]"]
    by (simp add: section_keys_def)
  have c: "isl (fst (NewConfig scalar_decoder Map.empty (ConfigFile [(''http.port.x'', Num 1)])))"
    using NewConfig_fails_iff [of scalar_decoder Map.empty "ConfigFile [(''http.port.x'', Num 1)]"]
    by (simp add: below_field_def int_keys_def string_keys_def)
  have d: "\<not> isl (fst (NewConfig scalar_decoder Map.empty (ConfigFile [(''http.port'', Num 80)])))"
    using NewConfig_fails_iff [of scalar_decoder Map.empty "ConfigFile [(''http.port'', Num 80)]"]
    by (simp add: below_field_def int_keys_def string_keys_def section_keys_def scalar_decoder_def)
  have e: "fst (NewConfig scalar_decoder Map.empty NoConfigFile) = Inr (defaultConfig Map.empty)"
    using NewConfig_fails_iff [of scalar_decoder Map.empty NoConfigFile,
        THEN conjunct2, THEN conjunct2, THEN conjunct2]
    by (simp add: Getenv_def)
  show ?thesis
    by (intro conjI a b c d e)
qed

section \<open>The escape hatches\<close>

text \<open>
  Claim C7. When \<open>MQ_NATS_SERVER\<close> is set and not empty, the broker address of the
  resolved structure is exactly its value, whatever \<open>SUBNET_PREFIX\<close>, \<open>NATS_HOST\<close> and
  the configuration file hold.
\<close>

theorem broker_escape_hatch_wins:
  assumes "env ''MQ_NATS_SERVER'' = Some v" and "v \<noteq> []"
    and "fst (NewConfig D env src) = Inr c"
  shows "Server (NATS (MQ c)) = v"
proof -
  from assms(3) obtain c1 where "c = overrideWithEnv env c1"
    using NewConfig_Inr by blast
  with assms(1,2) show ?thesis
    by (simp add: override_Server Getenv_def)
qed

theorem broker_escape_hatch_wins_witness:
  "Server (NATS (MQ (projr (fst (NewConfig scalar_decoder
      [''MQ_NATS_SERVER'' \<mapsto> ''nats://broker:4222'', ''NATS_HOST'' \<mapsto> ''queue'',
       ''SUBNET_PREFIX'' \<mapsto> ''10.0.0'']
      (ConfigFile [(''mq.nats.server'', Str ''nats://file:4222'')])))))) = ''nats://broker:4222''"
proof -
  let ?env = "[''MQ_NATS_SERVER'' \<mapsto> ''nats://broker:4222'', ''NATS_HOST'' \<mapsto> ''queue'',
       ''SUBNET_PREFIX'' \<mapsto> ''10.0.0'']"
  let ?src = "ConfigFile [(''mq.nats.server'', Str ''nats://file:4222'')]"
  have ok: "\<not> isl (fst (NewConfig scalar_decoder ?env ?src))"
    by (rule NewConfig_ok) (simp add: sample_eval)
  have set: "?env ''MQ_NATS_SERVER'' = Some ''nats://broker:4222''"
    by simp
  show ?thesis
    using broker_escape_hatch_wins [OF set _ NewConfig_collapse [OF ok]] by simp
qed

text \<open>
  Claim C10. With \<open>POSTGRES_PASSWORD\<close> set and not empty: if \<open>PG_DSN\<close> is set and not
  empty too, the resolved DSN is exactly the value of \<open>PG_DSN\<close>; if it is not, the
  resolved DSN is the whole fixed template, with the host from \<open>POSTGRES_HOST\<close> or its
  default and the password from the environment, whatever DSN the file supplied.
\<close>

theorem pg_dsn_outranks_password:
  assumes "fst (NewConfig D env src) = Inr c"
    and "Getenv env ''POSTGRES_PASSWORD'' \<noteq> []"
  shows "(Getenv env ''PG_DSN'' \<noteq> [] \<longrightarrow> DSN (PG c) = Getenv env ''PG_DSN'') \<and>
         (Getenv env ''PG_DSN'' = [] \<longrightarrow>
            DSN (PG c) =
              ''host='' @
              (if Getenv env ''POSTGRES_HOST'' \<noteq> [] then Getenv env ''POSTGRES_HOST''
               else ''panda-wiki-postgres'') @
              '' user=panda-wiki password='' @ Getenv env ''POSTGRES_PASSWORD'' @
              '' dbname=panda-wiki port=5432 sslmode=disable TimeZone=Asia/Shanghai'')"
proof -
  from assms(1) obtain c1 where "c = overrideWithEnv env c1"
    using NewConfig_Inr by blast
  with assms(2) show ?thesis
    by (simp add: override_DSN pgDSN_def getPostgresHost_def Let_def)
qed


theorem pg_dsn_outranks_password_witness:
  "DSN (PG (projr (fst (NewConfig scalar_decoder
      [''POSTGRES_PASSWORD'' \<mapsto> ''envpass'', ''PG_DSN'' \<mapsto> ''host=db user=u password=p'']
      (ConfigFile [(''pg.dsn'', Str ''host=file password=filepass'')]))))) =
     ''host=db user=u password=p'' \<and>
   DSN (PG (projr (fst (NewConfig scalar_decoder
      [''POSTGRES_PASSWORD'' \<mapsto> ''envpass'', ''POSTGRES_HOST'' \<mapsto> ''db1'']
      (ConfigFile [(''pg.dsn'', Str ''host=file password=filepass'')]))))) =
     ''host=db1 user=panda-wiki password=envpass dbname=panda-wiki port=5432 sslmode=disable TimeZone=Asia/Shanghai''"
proof -
  let ?src = "ConfigFile [(''pg.dsn'', Str ''host=file password=filepass'')]"
  let ?env1 = "[''POSTGRES_PASSWORD'' \<mapsto> ''envpass'', ''PG_DSN'' \<mapsto> ''host=db user=u password=p'']"
  let ?env2 = "[''POSTGRES_PASSWORD'' \<mapsto> ''envpass'', ''POSTGRES_HOST'' \<mapsto> ''db1'']"
  have ok1: "\<not> isl (fst (NewConfig scalar_decoder ?env1 ?src))"
    by (rule NewConfig_ok) (simp add: sample_eval)
  have ok2: "\<not> isl (fst (NewConfig scalar_decoder ?env2 ?src))"
    by (rule NewConfig_ok) (simp add: sample_eval)
  have pw1: "Getenv ?env1 ''POSTGRES_PASSWORD'' \<noteq> []"
    by (simp add: Getenv_def)
  have pw2: "Getenv ?env2 ''POSTGRES_PASSWORD'' \<noteq> []"
    by (simp add: Getenv_def)
  show ?thesis
    using pg_dsn_outranks_password [OF NewConfig_collapse [OF ok1] pw1]
      pg_dsn_outranks_password [OF NewConfig_collapse [OF ok2] pw2]
    by (simp add: Getenv_def)
qed

section \<open>Precedence for the database DSN\<close>




section \<open>Default addresses and the network prefix\<close>

text \<open>
  Claim C2, as stated, says that the default address of each of the four services is a
  template filled with the network prefix. The defaults of the database host and of the
  cache address are fixed host names: with the prefix \<open>10.0.0\<close> they are
  \<open>panda-wiki-postgres\<close> and \<open>panda-wiki-redis:6379\<close>, and the prefix is not part of
  them.
\<close>

theorem redis_postgres_default_counterexample:
  "getRedisAddr [''SUBNET_PREFIX'' \<mapsto> ''10.0.0''] = ''panda-wiki-redis:6379'' \<and>
   \<not> sublist ''10.0.0'' (getRedisAddr [''SUBNET_PREFIX'' \<mapsto> ''10.0.0'']) \<and>
   getPostgresHost [''SUBNET_PREFIX'' \<mapsto> ''10.0.0''] = ''panda-wiki-postgres'' \<and>
   \<not> sublist ''10.0.0'' (getPostgresHost [''SUBNET_PREFIX'' \<mapsto> ''10.0.0''])"
  by (simp add: getRedisAddr_def getPostgresHost_def Getenv_def sublist_Cons_right)

text \<open>
  Claim C2, amended. Let \<open>P\<close> be the network prefix (the value of \<open>SUBNET_PREFIX\<close>, or
  \<open>169.254.15\<close> when it is unset or empty) and let the host variable of the service be
  unset or empty. The default broker address is \<open>nats://P.13:4222\<close> and the default base
  URL of the retrieval service is \<open>http://P.18:8080/api/v1\<close>; the default database host
  is \<open>panda-wiki-postgres\<close> and the default cache address is \<open>panda-wiki-redis:6379\<close>,
  whatever the prefix.
\<close>

theorem default_addresses_from_prefix:
  assumes "effective_prefix env = P"
  shows "(Getenv env ''NATS_HOST'' = [] \<longrightarrow>
            getNatsServer env = ''nats://'' @ P @ ''.13:4222'' \<and>
            Server (NATS (MQ (defaultConfig env))) = ''nats://'' @ P @ ''.13:4222'') \<and>
         (Getenv env ''RAG_HOST'' = [] \<longrightarrow>
            getRagBaseURL env = ''http://'' @ P @ ''.18:8080/api/v1'' \<and>
            BaseURL (CTRAG (RAG (defaultConfig env))) = ''http://'' @ P @ ''.18:8080/api/v1'') \<and>
         (Getenv env ''REDIS_HOST'' = [] \<longrightarrow>
            getRedisAddr env = ''panda-wiki-redis:6379'' \<and>
            Addr (Redis (defaultConfig env)) = ''panda-wiki-redis:6379'') \<and>
         (Getenv env ''POSTGRES_HOST'' = [] \<longrightarrow>
            getPostgresHost env = ''panda-wiki-postgres'' \<and>
            DSN (PG (defaultConfig env)) =
              ''host=panda-wiki-postgres user=panda-wiki password=panda-wiki-secret dbname=panda-wiki port=5432 sslmode=disable TimeZone=Asia/Shanghai'')"
  using assms
  by (auto simp add: effective_prefix_def getNatsServer_def getRagBaseURL_def getRedisAddr_def
      getPostgresHost_def defaultConfig_def pgDSN_def Let_def)

theorem default_addresses_from_prefix_witness:
  "getNatsServer [''SUBNET_PREFIX'' \<mapsto> ''10.0.0''] = ''nats://10.0.0.13:4222'' \<and>
   getRagBaseURL [''SUBNET_PREFIX'' \<mapsto> ''10.0.0''] = ''http://10.0.0.18:8080/api/v1'' \<and>
   getRedisAddr [''SUBNET_PREFIX'' \<mapsto> ''10.0.0''] = ''panda-wiki-redis:6379'' \<and>
   getPostgresHost [''SUBNET_PREFIX'' \<mapsto> ''10.0.0''] = ''panda-wiki-postgres'' \<and>
   getNatsServer Map.empty = ''nats://169.254.15.13:4222'' \<and>
   getRagBaseURL Map.empty = ''http://169.254.15.18:8080/api/v1''"
proof -
  have p: "effective_prefix [''SUBNET_PREFIX'' \<mapsto> ''10.0.0''] = ''10.0.0''"
    by (simp add: effective_prefix_def Getenv_def)
  have q: "effective_prefix Map.empty = ''169.254.15''"
    by (simp add: effective_prefix_def Getenv_def)
  show ?thesis
    using default_addresses_from_prefix [OF p] default_addresses_from_prefix [OF q]
    by (simp add: Getenv_def)
qed

text \<open>
  Claim C5, as stated, says that every prefix-derived address of the resolved structure
  is computed from the prefix that the resolved \<open>SubnetPrefix\<close> field holds. A prefix
  set in the file reaches the field only: the addresses were derived before the file was
  read, from the environment or the fallback.
\<close>

theorem file_prefix_counterexample:
  "map_sum id (\<lambda>c. (SubnetPrefix c, Server (NATS (MQ c)), BaseURL (CTRAG (RAG c))))
     (fst (NewConfig scalar_decoder Map.empty (ConfigFile [(''subnet_prefix'', Str ''10.0.0'')]))) =
   Inr (''10.0.0'', ''nats://169.254.15.13:4222'', ''http://169.254.15.18:8080/api/v1'')"
  by (simp add: NewConfig_result override_no_env Getenv_empty viper_Unmarshal_def
      undecodable_def refused_def below_field_def int_keys_def string_keys_def section_keys_def
      scalar_decoder_def merged_def defaultConfig_def getNatsServer_def getRagBaseURL_def
      Let_def)

text \<open>
  Claim C5, amended. Every address of the resolved structure that is derived from the
  prefix (its host variable and its escape hatch unset or empty, its key absent from the
  file) is the template filled with the prefix of the environment: \<open>SUBNET_PREFIX\<close>, or
  \<open>169.254.15\<close> when it is unset or empty. That is the value of the resolved
  \<open>SubnetPrefix\<close> when \<open>SUBNET_PREFIX\<close> is set and not empty or the file does not set
  \<open>subnet_prefix\<close>, so the addresses and the field agree then. A prefix set only in the
  file becomes the \<open>SubnetPrefix\<close> field and changes no address: the derived addresses
  are still the templates filled with \<open>169.254.15\<close>.
\<close>

theorem derived_addresses_follow_env_prefix:
  assumes "fst (NewConfig D env src) = Inr c"
  shows "(Getenv env ''NATS_HOST'' = [] \<and> Getenv env ''MQ_NATS_SERVER'' = [] \<and>
          file_settings src ''mq.nats.server'' = None \<longrightarrow>
            Server (NATS (MQ c)) = ''nats://'' @ effective_prefix env @ ''.13:4222'' \<and>
            (Getenv env ''SUBNET_PREFIX'' \<noteq> [] \<or> file_settings src ''subnet_prefix'' = None \<longrightarrow>
               Server (NATS (MQ c)) = ''nats://'' @ SubnetPrefix c @ ''.13:4222'') \<and>
            (Getenv env ''SUBNET_PREFIX'' = [] \<longrightarrow>
               Server (NATS (MQ c)) = ''nats://169.254.15.13:4222'')) \<and>
         (Getenv env ''RAG_HOST'' = [] \<and> Getenv env ''RAG_CT_RAG_BASE_URL'' = [] \<and>
          file_settings src ''rag.ct_rag.base_url'' = None \<longrightarrow>
            BaseURL (CTRAG (RAG c)) = ''http://'' @ effective_prefix env @ ''.18:8080/api/v1'' \<and>
            (Getenv env ''SUBNET_PREFIX'' \<noteq> [] \<or> file_settings src ''subnet_prefix'' = None \<longrightarrow>
               BaseURL (CTRAG (RAG c)) = ''http://'' @ SubnetPrefix c @ ''.18:8080/api/v1'') \<and>
            (Getenv env ''SUBNET_PREFIX'' = [] \<longrightarrow>
               BaseURL (CTRAG (RAG c)) = ''http://169.254.15.18:8080/api/v1'')) \<and>
         (Getenv env ''SUBNET_PREFIX'' \<noteq> [] \<or> file_settings src ''subnet_prefix'' = None \<longrightarrow>
            SubnetPrefix c = effective_prefix env) \<and>
         (Getenv env ''SUBNET_PREFIX'' = [] \<longrightarrow>
            (case file_settings src ''subnet_prefix'' of
               Some v \<Rightarrow> decode_string D v = Some (SubnetPrefix c)
             | None \<Rightarrow> SubnetPrefix c = ''169.254.15''))"
proof -
  from assms obtain c1
    where um: "viper_Unmarshal D (file_entries src) (defaultConfig env) = Inr c1"
      and c: "c = overrideWithEnv env c1"
    using NewConfig_Inr by blast
  note f = Unmarshal_fields [OF um]
  have server: "Server (NATS (MQ c)) = ''nats://'' @ effective_prefix env @ ''.13:4222''"
    if "Getenv env ''NATS_HOST'' = []" "Getenv env ''MQ_NATS_SERVER'' = []"
      "file_settings src ''mq.nats.server'' = None"
    using that
    by (simp add: c override_Server f(2) merged_def file_settings_def defaultConfig_def
        getNatsServer_def effective_prefix_def Let_def)
  have url: "BaseURL (CTRAG (RAG c)) = ''http://'' @ effective_prefix env @ ''.18:8080/api/v1''"
    if "Getenv env ''RAG_HOST'' = []" "Getenv env ''RAG_CT_RAG_BASE_URL'' = []"
      "file_settings src ''rag.ct_rag.base_url'' = None"
    using that
    by (simp add: c override_BaseURL f(3) merged_def file_settings_def defaultConfig_def
        getRagBaseURL_def effective_prefix_def Let_def)
  have field: "SubnetPrefix c = effective_prefix env"
    if "Getenv env ''SUBNET_PREFIX'' \<noteq> [] \<or> file_settings src ''subnet_prefix'' = None"
    using that
    by (auto simp add: c override_SubnetPrefix f(4) merged_def file_settings_def
        defaultConfig_def effective_prefix_def)
  have fallback: "effective_prefix env = ''169.254.15''" if "Getenv env ''SUBNET_PREFIX'' = []"
    using that by (simp add: effective_prefix_def)
  have from_file:
    "case file_settings src ''subnet_prefix'' of
       Some v \<Rightarrow> decode_string D v = Some (SubnetPrefix c)
     | None \<Rightarrow> SubnetPrefix c = ''169.254.15''"
    if e: "Getenv env ''SUBNET_PREFIX'' = []"
  proof (cases "file_settings src ''subnet_prefix''")
    case None
    with e show ?thesis
      by (simp add: c override_SubnetPrefix f(4) merged_def file_settings_def defaultConfig_def)
  next
    case (Some v)
    then have h: "map_of (file_entries src) ''subnet_prefix'' = Some v"
      by (simp add: file_settings_def)
    have mem: "''subnet_prefix'' \<in> set string_keys"
      by (simp add: string_keys_def)
    obtain s where "decode_string D v = Some s"
      using undecodable_string [of D "file_entries src" "''subnet_prefix''" v, OF f(5) mem h]
      by blast
    with e h Some show ?thesis
      by (simp add: c override_SubnetPrefix f(4) merged_def)
  qed
  show ?thesis
    using server url field fallback from_file by simp
qed

theorem derived_addresses_follow_env_prefix_witness:
  "(let c = projr (fst (NewConfig scalar_decoder [''SUBNET_PREFIX'' \<mapsto> ''10.0.0'']
                (ConfigFile [(''subnet_prefix'', Str ''172.16.0'')])))
    in SubnetPrefix c = ''10.0.0'' \<and> Server (NATS (MQ c)) = ''nats://10.0.0.13:4222'' \<and>
       BaseURL (CTRAG (RAG c)) = ''http://10.0.0.18:8080/api/v1'') \<and>
   (let c = projr (fst (NewConfig scalar_decoder Map.empty
                (ConfigFile [(''subnet_prefix'', Str ''172.16.0'')])))
    in SubnetPrefix c = ''172.16.0'' \<and> Server (NATS (MQ c)) = ''nats://169.254.15.13:4222'' \<and>
       BaseURL (CTRAG (RAG c)) = ''http://169.254.15.18:8080/api/v1'')"
proof -
  let ?env = "[''SUBNET_PREFIX'' \<mapsto> ''10.0.0'']"
  let ?src = "ConfigFile [(''subnet_prefix'', Str ''172.16.0'')]"
  have ok1: "\<not> isl (fst (NewConfig scalar_decoder ?env ?src))"
    by (rule NewConfig_ok) (simp add: sample_eval)
  have ok2: "\<not> isl (fst (NewConfig scalar_decoder Map.empty ?src))"
    by (rule NewConfig_ok) (simp add: sample_eval)
  have a: "SubnetPrefix (projr (fst (NewConfig scalar_decoder ?env ?src))) = ''10.0.0'' \<and>
      Server (NATS (MQ (projr (fst (NewConfig scalar_decoder ?env ?src))))) = ''nats://10.0.0.13:4222'' \<and>
      BaseURL (CTRAG (RAG (projr (fst (NewConfig scalar_decoder ?env ?src))))) =
        ''http://10.0.0.18:8080/api/v1''"
    using derived_addresses_follow_env_prefix [OF NewConfig_collapse [OF ok1]]
    by (simp add: Getenv_def file_settings_def file_entries_def effective_prefix_def)
  have b: "SubnetPrefix (projr (fst (NewConfig scalar_decoder Map.empty ?src))) = ''172.16.0'' \<and>
      Server (NATS (MQ (projr (fst (NewConfig scalar_decoder Map.empty ?src))))) =
        ''nats://169.254.15.13:4222'' \<and>
      BaseURL (CTRAG (RAG (projr (fst (NewConfig scalar_decoder Map.empty ?src))))) =
        ''http://169.254.15.18:8080/api/v1''"
    using derived_addresses_follow_env_prefix [OF NewConfig_collapse [OF ok2]]
    by (simp add: Getenv_def file_settings_def file_entries_def effective_prefix_def
        scalar_decoder_def)
  show ?thesis
    using a b by (simp add: Let_def)
qed

section \<open>The defaults\<close>

text \<open>
  Claim C8, as stated, says that with no file and no variable set every field other than
  the five secrets has a non-zero default. The default of \<open>Log.Level\<close> is \<open>0\<close>.
\<close>

theorem log_level_default_counterexample:
  "map_sum id (\<lambda>c. Level (Log c)) (fst (NewConfig scalar_decoder Map.empty NoConfigFile)) = Inr 0"
  by (simp add: NewConfig_result override_no_env Getenv_empty defaultConfig_def)

text \<open>
  Claim C8, amended. With no configuration file and no environment variable set,
  \<open>NewConfig\<close> succeeds and the resolved structure holds the defaults below: every field
  is non-empty or non-zero, except the five secrets (admin password, broker password,
  cache password, signing secret, secret key of the object store), which are empty, and
  the log level, which is \<open>0\<close>.
\<close>

theorem defaults_complete:
  "fst (NewConfig D Map.empty NoConfigFile) =
     Inr \<lparr>Log = \<lparr>Level = 0\<rparr>,
          HTTP = \<lparr>Port = 8000\<rparr>,
          AdminPassword = [],
          PG = \<lparr>DSN = ''host=panda-wiki-postgres user=panda-wiki password=panda-wiki-secret dbname=panda-wiki port=5432 sslmode=disable TimeZone=Asia/Shanghai''\<rparr>,
          MQ = \<lparr>MQ_Type = ''nats'',
                NATS = \<lparr>Server = ''nats://169.254.15.13:4222'', User = ''panda-wiki'',
                         NATS_Password = []\<rparr>\<rparr>,
          RAG = \<lparr>Provider = ''ct'',
                 CTRAG = \<lparr>BaseURL = ''http://169.254.15.18:8080/api/v1'',
                           APIKey = ''sk-1234567890''\<rparr>\<rparr>,
          Redis = \<lparr>Addr = ''panda-wiki-redis:6379'', Redis_Password = []\<rparr>,
          Auth = \<lparr>Auth_Type = ''jwt'', JWT = \<lparr>Secret = []\<rparr>\<rparr>,
          S3 = \<lparr>Endpoint = ''panda-wiki-minio:9000'', AccessKey = ''s3panda-wiki'',
                SecretKey = []\<rparr>,
          CaddyAPI = ''/app/run/caddy-admin.sock'',
          SubnetPrefix = ''169.254.15''\<rparr>"
  by (simp add: NewConfig_result override_no_env Getenv_empty defaultConfig_def pgDSN_def
      getPostgresHost_def getNatsServer_def getRagBaseURL_def getRedisAddr_def
      getMinioEndpoint_def Let_def)

theorem defaults_complete_witness:
  "map_sum id (\<lambda>c. (Port (HTTP c), MQ_Type (MQ c), AdminPassword c, Level (Log c)))
     (fst (NewConfig scalar_decoder Map.empty NoConfigFile)) =
   Inr (8000, ''nats'', [], 0)"
  using defaults_complete [of scalar_decoder] by simp

section \<open>The generic key accessor and the layers\<close>

text \<open>
  Claim C4, as stated, says that a getter returns the merged value of defaults and file.
  The defaults are fields of the structure and never enter the library's store: with no
  file, the resolved HTTP port is \<open>8000\<close> and \<open>GetInt\<close> of \<open>http.port\<close> is \<open>0\<close>.
\<close>

theorem getter_misses_default_counterexample:
  "map_sum id
     (\<lambda>c. (Port (HTTP c),
           GetInt scalar_caster (snd (NewConfig scalar_decoder Map.empty NoConfigFile)) c ''http.port''))
     (fst (NewConfig scalar_decoder Map.empty NoConfigFile)) =
   Inr (8000, 0)"
  by (simp add: NewConfig_result NewConfig_store override_no_env Getenv_empty defaultConfig_def
      file_entries_def GetInt_def viper_GetInt_def scalar_caster_def ascii_lower_def)

text \<open>
  Claim C4, amended. After \<open>NewConfig\<close> the library's store holds the entries of the
  configuration file and nothing else, in every environment. For every key and each of
  the six types, the getter applied to that store returns the value that the file gives
  the key (put into lower case), coerced to the type, or the zero value of the type when
  the file has no such entry; it returns no error. The result depends on neither the
  structure nor the environment, so it shows neither the defaults nor the override
  pass: whenever the file does not set \<open>http.port\<close>, \<open>GetInt\<close> of that key is \<open>0\<close> and
  the resolved port is \<open>8000\<close>; whenever \<open>ADMIN_PASSWORD\<close> is set and not empty, the
  resolved admin password is its value and \<open>GetString\<close> of \<open>admin_password\<close> is still
  what the file gives.
\<close>

theorem getters_read_file_layer:
  fixes C :: "('v, 'f::zero) caster"
  shows "snd (NewConfig D env src) = file_entries src \<and>
   GetString C (snd (NewConfig D env src)) c key =
     (case file_settings src (ToLower C key) of None \<Rightarrow> [] | Some v \<Rightarrow> ToString C v) \<and>
   GetInt C (snd (NewConfig D env src)) c key =
     (case file_settings src (ToLower C key) of None \<Rightarrow> 0 | Some v \<Rightarrow> ToInt C v) \<and>
   GetUint64 C (snd (NewConfig D env src)) c key =
     (case file_settings src (ToLower C key) of None \<Rightarrow> 0 | Some v \<Rightarrow> ToUint64 C v) \<and>
   GetBool C (snd (NewConfig D env src)) c key =
     (case file_settings src (ToLower C key) of None \<Rightarrow> False | Some v \<Rightarrow> ToBool C v) \<and>
   GetStringSlice C (snd (NewConfig D env src)) c key =
     (case file_settings src (ToLower C key) of None \<Rightarrow> [] | Some v \<Rightarrow> ToStringSlice C v) \<and>
   GetFloat64 C (snd (NewConfig D env src)) c key =
     (case file_settings src (ToLower C key) of None \<Rightarrow> 0 | Some v \<Rightarrow> ToFloat64 C v) \<and>
   (fst (NewConfig D env src) = Inr c \<and> ToLower C ''http.port'' = ''http.port'' \<and>
    file_settings src ''http.port'' = None \<longrightarrow>
      GetInt C (snd (NewConfig D env src)) c ''http.port'' = 0 \<and> Port (HTTP c) = 8000) \<and>
   (fst (NewConfig D env src) = Inr c \<and> Getenv env ''ADMIN_PASSWORD'' \<noteq> [] \<longrightarrow>
      AdminPassword c = Getenv env ''ADMIN_PASSWORD'' \<and>
      GetString C (snd (NewConfig D env src)) c ''admin_password'' =
        (case file_settings src (ToLower C ''admin_password'') of
           None \<Rightarrow> [] | Some v \<Rightarrow> ToString C v))"
proof -
  have store: "snd (NewConfig D env src) = file_entries src"
    by (rule NewConfig_store)
  have getters:
    "GetString C (file_entries src) c k =
       (case file_settings src (ToLower C k) of None \<Rightarrow> [] | Some v \<Rightarrow> ToString C v)"
    "GetInt C (file_entries src) c k =
       (case file_settings src (ToLower C k) of None \<Rightarrow> 0 | Some v \<Rightarrow> ToInt C v)"
    "GetUint64 C (file_entries src) c k =
       (case file_settings src (ToLower C k) of None \<Rightarrow> 0 | Some v \<Rightarrow> ToUint64 C v)"
    "GetBool C (file_entries src) c k =
       (case file_settings src (ToLower C k) of None \<Rightarrow> False | Some v \<Rightarrow> ToBool C v)"
    "GetStringSlice C (file_entries src) c k =
       (case file_settings src (ToLower C k) of None \<Rightarrow> [] | Some v \<Rightarrow> ToStringSlice C v)"
    "GetFloat64 C (file_entries src) c k =
       (case file_settings src (ToLower C k) of None \<Rightarrow> 0 | Some v \<Rightarrow> ToFloat64 C v)"
    for k
    by (simp_all add: file_settings_def GetString_def GetInt_def GetUint64_def GetBool_def
        GetStringSlice_def GetFloat64_def viper_GetString_def viper_GetInt_def
        viper_GetUint64_def viper_GetBool_def viper_GetStringSlice_def viper_GetFloat64_def)
  have port: "Port (HTTP c) = 8000"
    if ok: "fst (NewConfig D env src) = Inr c" and none: "file_settings src ''http.port'' = None"
  proof -
    from ok obtain c1
      where um: "viper_Unmarshal D (file_entries src) (defaultConfig env) = Inr c1"
        and c: "c = overrideWithEnv env c1"
      using NewConfig_Inr by blast
    from none have "Port (HTTP c1) = 8000"
      by (simp add: Unmarshal_fields(6) [OF um] merged_def file_settings_def defaultConfig_def)
    then show ?thesis
      by (simp add: c override_updates)
  qed
  have admin: "AdminPassword c = Getenv env ''ADMIN_PASSWORD''"
    if ok: "fst (NewConfig D env src) = Inr c" and set: "Getenv env ''ADMIN_PASSWORD'' \<noteq> []"
  proof -
    from ok obtain c1 where "c = overrideWithEnv env c1"
      using NewConfig_Inr by blast
    with set show ?thesis
      by (simp add: override_updates envOr_def)
  qed
  show ?thesis
    unfolding store using getters port admin by simp
qed

theorem getters_read_file_layer_witness:
  "(let src = ConfigFile [(''http.port'', Num 9090)];
        env = [''ADMIN_PASSWORD'' \<mapsto> ''secret''];
        vp = snd (NewConfig scalar_decoder env src);
        c = projr (fst (NewConfig scalar_decoder env src))
    in GetInt scalar_caster vp c ''HTTP.Port'' = 9090 \<and>
       GetString scalar_caster vp c ''admin_password'' = [] \<and>
       AdminPassword c = ''secret'' \<and>
       GetBool scalar_caster vp c ''debug'' = False)"
proof -
  let ?src = "ConfigFile [(''http.port'', Num 9090)]"
  let ?env = "[''ADMIN_PASSWORD'' \<mapsto> ''secret'']"
  let ?vp = "snd (NewConfig scalar_decoder ?env ?src)"
  let ?c = "projr (fst (NewConfig scalar_decoder ?env ?src))"
  note layer = getters_read_file_layer [of scalar_decoder ?env ?src scalar_caster ?c]
  have ok: "\<not> isl (fst (NewConfig scalar_decoder ?env ?src))"
    by (rule NewConfig_ok) (simp add: sample_eval)
  have low: "ToLower scalar_caster ''HTTP.Port'' = ''http.port''"
    "ToLower scalar_caster ''admin_password'' = ''admin_password''"
    "ToLower scalar_caster ''debug'' = ''debug''"
    by (simp_all add: scalar_caster_def ascii_lower_def)
  have val: "ToInt scalar_caster (Num 9090) = 9090"
    by (simp add: scalar_caster_def)
  have "GetInt scalar_caster ?vp ?c ''HTTP.Port'' =
      (case file_settings ?src (ToLower scalar_caster ''HTTP.Port'') of
         None \<Rightarrow> 0 | Some v \<Rightarrow> ToInt scalar_caster v)"
    by (rule layer [THEN conjunct2, THEN conjunct2, THEN conjunct1])
  then have a: "GetInt scalar_caster ?vp ?c ''HTTP.Port'' = 9090"
    by (simp add: low val file_settings_def file_entries_def)
  have "GetString scalar_caster ?vp ?c ''admin_password'' =
      (case file_settings ?src (ToLower scalar_caster ''admin_password'') of
         None \<Rightarrow> [] | Some v \<Rightarrow> ToString scalar_caster v)"
    by (rule layer [THEN conjunct2, THEN conjunct1])
  then have b: "GetString scalar_caster ?vp ?c ''admin_password'' = []"
    by (simp add: low file_settings_def file_entries_def)
  have "GetBool scalar_caster ?vp ?c ''debug'' =
      (case file_settings ?src (ToLower scalar_caster ''debug'') of
         None \<Rightarrow> False | Some v \<Rightarrow> ToBool scalar_caster v)"
    by (rule layer [THEN conjunct2, THEN conjunct2, THEN conjunct2, THEN conjunct2,
          THEN conjunct1])
  then have c: "GetBool scalar_caster ?vp ?c ''debug'' = False"
    by (simp add: low file_settings_def file_entries_def)
  have set: "Getenv ?env ''ADMIN_PASSWORD'' = ''secret''"
    by (simp add: Getenv_def)
  have "AdminPassword ?c = Getenv ?env ''ADMIN_PASSWORD''"
    using layer [of "''admin_password''", THEN conjunct2, THEN conjunct2, THEN conjunct2,
        THEN conjunct2, THEN conjunct2, THEN conjunct2, THEN conjunct2, THEN conjunct2]
      NewConfig_collapse [OF ok] set
    by simp
  then have d: "AdminPassword ?c = ''secret''"
    by (simp only: set)
  show ?thesis
    unfolding Let_def by (intro conjI a b d c)
qed

end
